theory Spec2Isabelle
  imports Complex_Main "HOL-Library.AList"
begin

section \<open>JavaScript values\<close>

text \<open>
  The dashboard back ends are JavaScript. Filter values arrive as parsed JSON; the document
  back end additionally builds \<open>ObjectId\<close> and \<open>Date\<close> values. An object is
  the list of its own properties in enumeration order; where the program adds a property,
  the list grows at its end (JavaScript enumerates names that are array indices first, a
  difference in order on which no statement below depends). Numbers are IEEE doubles in the
  program; here a finite number is a rational, and \<open>NaN\<close> and the two infinities are
  separate values (rounding and the sign of zero are not modelled: the code under study
  never computes with numbers, it only converts and forwards them).
\<close>

datatype jsnum = Fin rat | NaN | PosInf | NegInf

datatype jsval =
    VUndefined
  | VNull
  | VBool bool
  | VNum jsnum
  | VStr string
  | VArr "jsval list"
  | VObj "(string \<times> jsval) list"
  | VObjectId string
  | VDate int

text \<open>
  What the program throws. A \<open>TypeError\<close> carries the head of the engine's message
  (no such message contains the words the handlers look for). \<open>Inherited k\<close> is not an
  exception of the program: it marks a place where the program, having read a member that
  every plain object inherits from \<open>Object.prototype\<close> under a caller-supplied name
  \<open>k\<close>, goes on with a value of a built-in object that the value type above does not
  hold (a function, a wrapper object, the operator table itself). The embedding follows the
  program up to that place and marks it; the places are named where they occur.
\<close>

datatype js_exn = Error string | TypeError string | Inherited string

fun message :: "js_exn \<Rightarrow> string" where
  "message (Error m) = m"
| "message (TypeError m) = m"
| "message (Inherited k) = k"

definition Object_prototype_members :: "string list" where
  "Object_prototype_members =
     [''constructor'', ''__proto__'', ''hasOwnProperty'', ''isPrototypeOf'',
      ''propertyIsEnumerable'', ''toLocaleString'', ''toString'', ''valueOf'',
      ''__defineGetter__'', ''__defineSetter__'', ''__lookupGetter__'', ''__lookupSetter__'']"

text \<open>
  Reading \<open>obj[k]\<close> on a plain object given by its own properties, in a process whose
  \<open>Object.prototype\<close> has its standard members only.
\<close>

datatype 'a lookup = Own 'a | Proto | Missing

definition js_get :: "(string \<times> 'a) list \<Rightarrow> string \<Rightarrow> 'a lookup" where
  "js_get obj k =
     (case map_of obj k of
        Some v \<Rightarrow> Own v
      | None \<Rightarrow> if k \<in> set Object_prototype_members then Proto else Missing)"

text \<open>
  The match builder of the document back end can write to \<open>Object.prototype\<close> itself
  (a filter on the field \<open>__proto__\<close>, see \<open>buildMatch_loop\<close>). The properties
  added in this way are visible in every later read of a name that the object read does
  not own, so they are carried along as a state: the list of the properties added so far.
  A read then finds an own property, an added one, a standard member, or nothing.
\<close>

type_synonym prototype = "(string \<times> jsval) list"

datatype 'a found = Owned 'a | Added jsval | Member | Absent

definition js_read :: "prototype \<Rightarrow> (string \<times> 'a) list \<Rightarrow> string \<Rightarrow> 'a found" where
  "js_read added obj k =
     (case map_of obj k of
        Some v \<Rightarrow> Owned v
      | None \<Rightarrow>
          (case map_of added k of
             Some v \<Rightarrow> Added v
           | None \<Rightarrow> if k \<in> set Object_prototype_members then Member else Absent))"

text \<open>
  The built-in conversions the code calls: \<open>Number(s)\<close> on a string, \<open>new Date(s)\<close>
  (\<open>None\<close> stands for \<open>Invalid Date\<close>), and \<open>String(v)\<close> for a value that is not a
  string, a boolean, \<open>null\<close> or \<open>undefined\<close>. They belong to the language, not to
  the repository, and are parameters of the embedding.
\<close>

record builtins =
  toNumber :: "string \<Rightarrow> jsnum"
  parseDate :: "string \<Rightarrow> int option"
  render :: "jsval \<Rightarrow> string"

fun js_String :: "builtins \<Rightarrow> jsval \<Rightarrow> string" where
  "js_String B (VStr s) = s"
| "js_String B VUndefined = ''undefined''"
| "js_String B VNull = ''null''"
| "js_String B (VBool b) = (if b then ''true'' else ''false'')"
| "js_String B v = render B v"

fun truthy :: "jsval \<Rightarrow> bool" where
  "truthy VUndefined = False"
| "truthy VNull = False"
| "truthy (VBool b) = b"
| "truthy (VNum n) = (n \<noteq> NaN \<and> n \<noteq> Fin 0)"
| "truthy (VStr s) = (s \<noteq> [])"
| "truthy v = True"

definition is_digit :: "char \<Rightarrow> bool" where
  "is_digit c = (c \<in> set ''0123456789'')"

definition is_hex :: "char \<Rightarrow> bool" where
  "is_hex c = (c \<in> set ''0123456789abcdefABCDEF'')"

text \<open>
  White space as \<open>trim\<close> removes it, for the ASCII characters; the further Unicode white
  space is not distinguished from other characters. Likewise \<open>to_lower\<close> below maps the
  ASCII letters.
\<close>

definition is_space :: "char \<Rightarrow> bool" where
  "is_space c = (c \<in> set [CHR '' '', CHR 0x09, CHR 0x0A, CHR 0x0B, CHR 0x0C, CHR 0x0D])"

text \<open>\<open>s.includes(sub)\<close>\<close>

fun str_includes :: "string \<Rightarrow> string \<Rightarrow> bool" where
  "str_includes [] sub = (sub = [])"
| "str_includes (c # cs) sub = (take (length sub) (c # cs) = sub \<or> str_includes cs sub)"

section \<open>Document back end: operators.js\<close>

text \<open>\<open>/^[0-9a-fA-F]{24}$/\<close>\<close>

definition hex24 :: "string \<Rightarrow> bool" where
  "hex24 s = (length s = 24 \<and> list_all is_hex s)"

text \<open>\<open>/^\d{4}-\d{2}-\d{2}/\<close> and \<open>/^\d{4}-\d{2}-\d{2}T/\<close>\<close>

definition date_prefix :: "string \<Rightarrow> bool" where
  "date_prefix s =
     (10 \<le> length s \<and> list_all is_digit (take 4 s) \<and> s ! 4 = CHR ''-'' \<and>
      list_all is_digit (take 2 (drop 5 s)) \<and> s ! 7 = CHR ''-'' \<and>
      list_all is_digit (take 2 (drop 8 s)))"

definition date_prefix_T :: "string \<Rightarrow> bool" where
  "date_prefix_T s = (date_prefix s \<and> 11 \<le> length s \<and> s ! 10 = CHR ''T'')"

text \<open>
  \<open>maybeNumber\<close>: a 24-character hexadecimal string becomes an \<open>ObjectId\<close> (the
  constructor accepts every such string, so the \<open>catch\<close> branch is dead); a string that
  is not blank and that \<open>Number\<close> does not map to \<open>NaN\<close> becomes that number.
\<close>

fun maybeNumber :: "builtins \<Rightarrow> jsval \<Rightarrow> jsval" where
  "maybeNumber B (VStr s) =
     (if hex24 s then VObjectId s
      else if \<not> list_all is_space s \<and> toNumber B s \<noteq> NaN then VNum (toNumber B s)
      else VStr s)"
| "maybeNumber B v = v"

fun maybeDate :: "builtins \<Rightarrow> jsval \<Rightarrow> jsval" where
  "maybeDate B (VStr s) =
     (if date_prefix s \<or> date_prefix_T s
      then (case parseDate B s of Some d \<Rightarrow> VDate d | None \<Rightarrow> VStr s)
      else VStr s)"
| "maybeDate B v = v"

text \<open>
  Reading \<open>v.from\<close> and \<open>v.to\<close>: a \<open>TypeError\<close> on \<open>null\<close> and
  \<open>undefined\<close>; otherwise the own property of an object, else a property added to
  \<open>Object.prototype\<close>, else \<open>undefined\<close> (neither name is a standard member, and
  no string, array, number or boolean owns a property of either name).
\<close>

definition added_prop :: "prototype \<Rightarrow> string \<Rightarrow> jsval" where
  "added_prop added k = (case map_of added k of Some v \<Rightarrow> v | None \<Rightarrow> VUndefined)"

fun get_prop :: "prototype \<Rightarrow> jsval \<Rightarrow> string \<Rightarrow> js_exn + jsval" where
  "get_prop added VUndefined k = Inl (TypeError ''Cannot read properties of undefined'')"
| "get_prop added VNull k = Inl (TypeError ''Cannot read properties of null'')"
| "get_prop added (VObj kvs) k =
     (case map_of kvs k of Some v \<Rightarrow> Inr v | None \<Rightarrow> Inr (added_prop added k))"
| "get_prop added v k = Inr (added_prop added k)"

type_synonym condition = "(string \<times> jsval) list"

datatype op_entry = OpFn "jsval \<Rightarrow> js_exn + condition" | OpStr string

definition AGGREGATION_OPERATORS :: "(string \<times> string) list" where
  "AGGREGATION_OPERATORS =
     [(''sum'', ''$sum''), (''avg'', ''$avg''), (''min'', ''$min''), (''max'', ''$max''),
      (''count'', ''$sum''), (''first'', ''$first''), (''last'', ''$last'')]"

definition in_item :: "builtins \<Rightarrow> jsval \<Rightarrow> jsval" where
  "in_item B item =
     (case item of
        VStr s \<Rightarrow> if hex24 s then VObjectId s else maybeDate B (maybeNumber B item)
      | _ \<Rightarrow> maybeDate B (maybeNumber B item))"

definition op_between :: "builtins \<Rightarrow> prototype \<Rightarrow> jsval \<Rightarrow> js_exn + condition" where
  "op_between B added v =
     (case get_prop added v ''from'' of
        Inl e \<Rightarrow> Inl e
      | Inr lo \<Rightarrow>
          (case get_prop added v ''to'' of
             Inl e \<Rightarrow> Inl e
           | Inr hi \<Rightarrow>
               Inr [(''$gte'', maybeDate B (maybeNumber B lo)),
                    (''$lte'', maybeDate B (maybeNumber B hi))]))"

definition STANDARD_OPERATORS :: "builtins \<Rightarrow> prototype \<Rightarrow> (string \<times> op_entry) list" where
  "STANDARD_OPERATORS B added =
     [(''eq'', OpFn (\<lambda>v. Inr [(''$eq'', maybeDate B (maybeNumber B v))])),
      (''ne'', OpFn (\<lambda>v. Inr [(''$ne'', maybeDate B (maybeNumber B v))])),
      (''gt'', OpFn (\<lambda>v. Inr [(''$gt'', maybeDate B (maybeNumber B v))])),
      (''gte'', OpFn (\<lambda>v. Inr [(''$gte'', maybeDate B (maybeNumber B v))])),
      (''lt'', OpFn (\<lambda>v. Inr [(''$lt'', maybeDate B (maybeNumber B v))])),
      (''lte'', OpFn (\<lambda>v. Inr [(''$lte'', maybeDate B (maybeNumber B v))])),
      (''startsWith'', OpFn (\<lambda>v. Inr [(''$regex'', VStr (''^'' @ js_String B v)),
                                         (''$options'', VStr ''i'')])),
      (''endsWith'', OpFn (\<lambda>v. Inr [(''$regex'', VStr (js_String B v @ ''$'')),
                                       (''$options'', VStr ''i'')])),
      (''contains'', OpFn (\<lambda>v. Inr [(''$regex'', v), (''$options'', VStr ''i'')])),
      (''in'', OpFn (\<lambda>v. Inr [(''$in'',
          VArr (case v of VArr items \<Rightarrow> map (in_item B) items | _ \<Rightarrow> [v]))])),
      (''between'', OpFn (op_between B added))]"

definition OPERATORS :: "builtins \<Rightarrow> prototype \<Rightarrow> (string \<times> op_entry) list" where
  "OPERATORS B added =
     STANDARD_OPERATORS B added @ map (\<lambda>(k, s). (k, OpStr s)) AGGREGATION_OPERATORS"

section \<open>Document back end: filterBuilder.js\<close>

record match_filter =
  mfield :: string
  moperator :: string
  mvalue :: jsval

text \<open>\<open>Object.assign(target, source)\<close> on own properties: key by key, in the source's order.\<close>

definition Object_assign :: "(string \<times> 'a) list \<Rightarrow> (string \<times> 'a) list \<Rightarrow> (string \<times> 'a) list" where
  "Object_assign target source = foldl (\<lambda>t (k, v). AList.update k v t) target source"

text \<open>
  The guard \<open>if (!OPERATORS[f.operator]) throw\<close> followed by the call
  \<open>OPERATORS[f.operator](f.value)\<close>, in a process where \<open>added\<close> has been added to
  \<open>Object.prototype\<close>.
  \<^item> An aggregation tag passes the guard (its entry is a non-empty string) and the call
    fails, since a string is not callable.
  \<^item> A name found among the added properties reads a value that is never a function: a
    falsy one fails the guard, a truthy one fails the call.
  \<^item> Of the standard members, \<open>__proto__\<close> reads \<open>Object.prototype\<close> itself, which
    is not callable, and \<open>__defineGetter__\<close> and \<open>__defineSetter__\<close> are called without
    the function they expect as second argument and throw.
  \<^item> The other nine standard members are functions that return a string, a boolean,
    \<open>undefined\<close>, a function, a wrapper object, the filter's value or the table
    itself, with which the loop goes on (\<open>Inherited\<close>).
\<close>

definition apply_operator_in :: "builtins \<Rightarrow> prototype \<Rightarrow> match_filter \<Rightarrow> js_exn + condition" where
  "apply_operator_in B added f =
     (case js_read added (OPERATORS B added) (moperator f) of
        Absent \<Rightarrow> Inl (Error (''Invalid operator: '' @ moperator f))
      | Owned (OpStr s) \<Rightarrow> Inl (TypeError ''OPERATORS[f.operator] is not a function'')
      | Owned (OpFn g) \<Rightarrow> g (mvalue f)
      | Added v \<Rightarrow>
          if truthy v then Inl (TypeError ''OPERATORS[f.operator] is not a function'')
          else Inl (Error (''Invalid operator: '' @ moperator f))
      | Member \<Rightarrow>
          if moperator f = ''__proto__''
            then Inl (TypeError ''OPERATORS[f.operator] is not a function'')
          else if moperator f \<in> set [''__defineGetter__'', ''__defineSetter__'']
            then Inl (TypeError (''Object.prototype.'' @ moperator f @ '': Expecting function''))
          else Inl (Inherited (moperator f)))"

text \<open>The same in a process whose \<open>Object.prototype\<close> has its standard members only.\<close>

definition apply_operator :: "builtins \<Rightarrow> match_filter \<Rightarrow> js_exn + condition" where
  "apply_operator B f = apply_operator_in B [] f"

type_synonym match_expr = "(string \<times> condition) list"

text \<open>
  The loop of \<open>buildMatch\<close>. The test \<open>!match[f.field]\<close> reads through the
  prototype chain of \<open>match\<close>:
  \<^item> no property of that name: the condition becomes an own property of \<open>match\<close>;
  \<^item> an own property: it is a condition object, and the new condition is assigned onto it;
  \<^item> a standard member other than \<open>__proto__\<close>: a built-in function, which is truthy,
    so \<open>Object.assign\<close> writes the condition's properties onto that function and
    \<open>match\<close> gets no property for the field;
  \<^item> \<open>__proto__\<close>: the object read is \<open>Object.prototype\<close>, the condition's
    properties are added to it, and \<open>match\<close> gets no property for the field;
  \<^item> a property added before: if its value is truthy, \<open>Object.assign\<close> writes onto
    that value (or onto a wrapper of it) and \<open>match\<close> is unchanged; if it is falsy, the
    assignment \<open>match[f.field] = condition\<close> makes an own property.
  The result is \<open>match\<close> together with the properties added to \<open>Object.prototype\<close>.
\<close>

fun buildMatch_loop ::
  "builtins \<Rightarrow> prototype \<Rightarrow> match_expr \<Rightarrow> match_filter list \<Rightarrow> js_exn + match_expr \<times> prototype" where
  "buildMatch_loop B added match [] = Inr (match, added)"
| "buildMatch_loop B added match (f # fs) =
     (case apply_operator_in B added f of
        Inl e \<Rightarrow> Inl e
      | Inr condition \<Rightarrow>
          (case js_read added match (mfield f) of
             Absent \<Rightarrow> buildMatch_loop B added (match @ [(mfield f, condition)]) fs
           | Owned c \<Rightarrow>
               buildMatch_loop B added
                 (AList.update (mfield f) (Object_assign c condition) match) fs
           | Member \<Rightarrow>
               if mfield f = ''__proto__''
               then buildMatch_loop B (Object_assign added condition) match fs
               else buildMatch_loop B added match fs
           | Added v \<Rightarrow>
               if truthy v then buildMatch_loop B added match fs
               else buildMatch_loop B added (match @ [(mfield f, condition)]) fs))"

definition buildMatch_in ::
  "builtins \<Rightarrow> prototype \<Rightarrow> match_filter list \<Rightarrow> js_exn + match_expr \<times> prototype" where
  "buildMatch_in B added filters = buildMatch_loop B added [] filters"

text \<open>
  \<open>buildMatch\<close> in a process whose \<open>Object.prototype\<close> has its standard members
  only: the object it returns.
\<close>

definition buildMatch :: "builtins \<Rightarrow> match_filter list \<Rightarrow> js_exn + match_expr" where
  "buildMatch B filters =
     (case buildMatch_in B [] filters of Inl e \<Rightarrow> Inl e | Inr (match, added) \<Rightarrow> Inr match)"

section \<open>Relation graph and join planner\<close>

record relation =
  r_from :: string
  r_to :: string
  r_local :: string
  r_foreign :: string

text \<open>\<open>relations.js\<close> of the document back end.\<close>

definition RELATIONS :: "relation list" where
  "RELATIONS =
     [\<lparr>r_from = ''customers'', r_to = ''invoices'', r_local = ''_id'', r_foreign = ''customer_id''\<rparr>,
      \<lparr>r_from = ''products'', r_to = ''invoices'', r_local = ''_id'', r_foreign = ''product_id''\<rparr>,
      \<lparr>r_from = ''categories'', r_to = ''products'', r_local = ''_id'', r_foreign = ''category_id''\<rparr>,
      \<lparr>r_from = ''categories'', r_to = ''invoices'', r_local = ''_id'', r_foreign = ''category_id''\<rparr>]"

text \<open>
  Modelled from the spec: \<open>pathResolver.js\<close> (\<open>findPath\<close>) is imported by both join
  planners and is not among the sources. The spec describes a breadth-first search over
  the undirected relation graph in the relations' enumeration order, \<open>[x]\<close> for equal end
  points and no path for disconnected ones. The planners below take the path resolver as
  a parameter; this definition is the instance used at concrete inputs. The counter bounds
  the number of dequeued paths, which never exceeds the number of entities.
\<close>

definition neighbours :: "relation list \<Rightarrow> string \<Rightarrow> string list" where
  "neighbours rels n =
     concat (map (\<lambda>r. if r_from r = n then [r_to r] else if r_to r = n then [r_from r] else []) rels)"

fun bfs :: "nat \<Rightarrow> relation list \<Rightarrow> string \<Rightarrow> string list list \<Rightarrow> string list \<Rightarrow> string list option" where
  "bfs 0 rels goal queue visited = None"
| "bfs (Suc n) rels goal [] visited = None"
| "bfs (Suc n) rels goal (p # queue) visited =
     (if last p = goal then Some p
      else
        (let fresh = remdups (filter (\<lambda>m. m \<notin> set visited) (neighbours rels (last p)))
         in bfs n rels goal (queue @ map (\<lambda>m. p @ [m]) fresh) (visited @ fresh)))"

definition findPath :: "relation list \<Rightarrow> string \<Rightarrow> string \<Rightarrow> string list option" where
  "findPath rels a b = bfs (2 * length rels + 2) rels b [[a]] [a]"

text \<open>A filter as the request carries it; an aggregation operation has the same shape.\<close>

record ui_filter =
  collection :: string
  field :: string
  operator :: string
  fvalue :: jsval
  falias :: "string option"

text \<open>\<open>RELATIONS.find(r => (r.from === a && r.to === b) || (r.from === b && r.to === a))\<close>\<close>

definition find_relation :: "relation list \<Rightarrow> string \<Rightarrow> string \<Rightarrow> relation option" where
  "find_relation rels a b =
     List.find (\<lambda>r. (r_from r = a \<and> r_to r = b) \<or> (r_from r = b \<and> r_to r = a)) rels"

text \<open>\<open>dedupe(arr, keyFn)\<close>: keep an element when its key has not been seen.\<close>

fun dedupe_from :: "string list \<Rightarrow> ('a \<Rightarrow> string) \<Rightarrow> 'a list \<Rightarrow> 'a list" where
  "dedupe_from seen keyFn [] = []"
| "dedupe_from seen keyFn (i # arr) =
     (if keyFn i \<in> set seen then dedupe_from seen keyFn arr
      else i # dedupe_from (keyFn i # seen) keyFn arr)"

definition dedupe :: "'a list \<Rightarrow> ('a \<Rightarrow> string) \<Rightarrow> 'a list" where
  "dedupe arr keyFn = dedupe_from [] keyFn arr"

subsection \<open>Document back end: joinPlanner.js\<close>

record join_stage =
  j_from :: string
  localField :: string
  foreignField :: string
  j_as :: string

text \<open>
  The inner loop over a path. \<open>rel\<close> is \<open>undefined\<close> when no relation joins two
  consecutive entities, and reading \<open>rel.from\<close> then throws.
\<close>

fun path_joins :: "relation list \<Rightarrow> string list \<Rightarrow> js_exn + join_stage list" where
  "path_joins rels (a # b # rest) =
     (case find_relation rels a b of
        None \<Rightarrow> Inl (TypeError ''Cannot read properties of undefined'')
      | Some rel \<Rightarrow>
          (case path_joins rels (b # rest) of
             Inl e \<Rightarrow> Inl e
           | Inr js \<Rightarrow>
               Inr (\<lparr>j_from = b,
                     localField = (if r_from rel = a then r_local rel else r_foreign rel),
                     foreignField = (if r_from rel = a then r_foreign rel else r_local rel),
                     j_as = b\<rparr> # js)))"
| "path_joins rels p = Inr []"

fun collect_joins ::
  "(string list \<Rightarrow> js_exn + 'j list) \<Rightarrow> (string \<Rightarrow> string \<Rightarrow> string list option) \<Rightarrow>
   string \<Rightarrow> ui_filter list \<Rightarrow> js_exn + 'j list" where
  "collect_joins walk fp rootc [] = Inr []"
| "collect_joins walk fp rootc (f # fs) =
     (if collection f = rootc then collect_joins walk fp rootc fs
      else
        (case fp rootc (collection f) of
           None \<Rightarrow> collect_joins walk fp rootc fs
         | Some p \<Rightarrow>
             (case walk p of
                Inl e \<Rightarrow> Inl e
              | Inr js \<Rightarrow>
                  (case collect_joins walk fp rootc fs of
                     Inl e \<Rightarrow> Inl e
                   | Inr rest \<Rightarrow> Inr (js @ rest)))))"

definition join_key :: "join_stage \<Rightarrow> string" where
  "join_key j = j_from j @ '':'' @ localField j @ '':'' @ foreignField j"

definition buildJoinPlan ::
  "relation list \<Rightarrow> (string \<Rightarrow> string \<Rightarrow> string list option) \<Rightarrow> string \<Rightarrow> ui_filter list \<Rightarrow>
   js_exn + join_stage list" where
  "buildJoinPlan rels fp rootc filters =
     (case collect_joins (path_joins rels) fp rootc filters of
        Inl e \<Rightarrow> Inl e
      | Inr joins \<Rightarrow> Inr (dedupe joins join_key))"

subsection \<open>Tabular back end: joinPlanner.js\<close>

record sql_join =
  s_from :: string
  s_to :: string
  s_type :: string

fun path_joins_sql :: "relation list \<Rightarrow> string list \<Rightarrow> js_exn + sql_join list" where
  "path_joins_sql rels (a # b # rest) =
     (case find_relation rels a b of
        None \<Rightarrow> Inl (TypeError ''Cannot read properties of undefined'')
      | Some rel \<Rightarrow>
          (case path_joins_sql rels (b # rest) of
             Inl e \<Rightarrow> Inl e
           | Inr js \<Rightarrow>
               Inr (\<lparr>s_from = a @ ''.'' @ (if r_from rel = a then r_local rel else r_foreign rel),
                     s_to = b @ ''.'' @ (if r_from rel = a then r_foreign rel else r_local rel),
                     s_type = ''INNER''\<rparr> # js)))"
| "path_joins_sql rels p = Inr []"

text \<open>
  The key function is the one of the document back end,
  \<open>j => `${j.from}:${j.localField}:${j.foreignField}`\<close>, applied to objects that have the
  properties \<open>from\<close>, \<open>to\<close> and \<open>type\<close> only: the two missing properties print as
  \<open>undefined\<close>.
\<close>

definition join_key_sql :: "sql_join \<Rightarrow> string" where
  "join_key_sql j = s_from j @ '':'' @ ''undefined'' @ '':'' @ ''undefined''"

definition buildJoinPlan_sql ::
  "relation list \<Rightarrow> (string \<Rightarrow> string \<Rightarrow> string list option) \<Rightarrow> string \<Rightarrow> ui_filter list \<Rightarrow>
   js_exn + sql_join list" where
  "buildJoinPlan_sql rels fp rootc filters =
     (case collect_joins (path_joins_sql rels) fp rootc filters of
        Inl e \<Rightarrow> Inl e
      | Inr joins \<Rightarrow> Inr (dedupe joins join_key_sql))"

section \<open>Document back end: server.js\<close>

text \<open>\<open>[...new Set(xs)]\<close>: the distinct elements in first-seen order.\<close>

definition uniq :: "string list \<Rightarrow> string list" where
  "uniq xs = dedupe xs (\<lambda>x. x)"

definition resolveRoot :: "ui_filter list \<Rightarrow> string" where
  "resolveRoot filters =
     (let cols = uniq (map collection filters) in
      if ''invoices'' \<in> set cols then ''invoices''
      else if 1 < length cols then ''invoices''
      else if length cols = 1 \<and> hd cols \<in> set [''customers'', ''products'', ''categories'']
        then ''invoices''
      else (case cols of [] \<Rightarrow> ''invoices'' | c # cs \<Rightarrow> if c = [] then ''invoices'' else c))"

definition resolveFieldPath :: "string \<Rightarrow> ui_filter \<Rightarrow> string" where
  "resolveFieldPath rootc f =
     (if collection f = rootc then field f else collection f @ ''.'' @ field f)"

definition allowedOperators :: "string list" where
  "allowedOperators =
     [''eq'', ''ne'', ''gt'', ''gte'', ''lt'', ''lte'', ''contains'', ''startsWith'', ''endsWith'',
      ''between'', ''in'', ''regex'', ''sum'', ''avg'', ''min'', ''max'', ''count'']"

text \<open>\<open>typeof v === 'object' && v !== null && !Array.isArray(v)\<close>\<close>

fun plain_object :: "jsval \<Rightarrow> bool" where
  "plain_object (VObj kvs) = True"
| "plain_object (VObjectId h) = True"
| "plain_object (VDate d) = True"
| "plain_object v = False"

definition validateFilter :: "ui_filter \<Rightarrow> js_exn + unit" where
  "validateFilter f =
     (if collection f \<notin> set [''invoices'', ''customers'', ''products'', ''categories'']
        then Inl (Error (''Invalid collection: '' @ collection f))
      else if CHR ''$'' \<in> set (field f) \<or> CHR ''.'' \<in> set (field f)
        then Inl (Error (''Invalid field name: '' @ field f))
      else if operator f \<notin> set allowedOperators
        then Inl (Error (''Invalid operator: '' @ operator f))
      else if plain_object (fvalue f)
        then Inl (Error ''Object values not allowed for security reasons'')
      else Inr ())"

definition aggregation_tag :: "string \<Rightarrow> bool" where
  "aggregation_tag opr = (opr \<in> set [''sum'', ''avg'', ''min'', ''max'', ''count''])"

datatype stage =
    Lookup string string string string
  | Unwind string
  | Match match_expr
  | Group "(string \<times> jsval) list"

definition lookup_stages :: "join_stage list \<Rightarrow> stage list" where
  "lookup_stages joins =
     concat (map (\<lambda>j. [Lookup (j_from j) (localField j) (foreignField j) (j_as j),
                        Unwind (''$'' @ j_as j)]) joins)"

text \<open>\<open>filters.map(f => ({ field: resolveFieldPath(root, f), operator: f.operator, value: f.value }))\<close>\<close>

definition match_filters :: "string \<Rightarrow> ui_filter list \<Rightarrow> match_filter list" where
  "match_filters rootc filters =
     map (\<lambda>f. \<lparr>mfield = resolveFieldPath rootc f, moperator = operator f, mvalue = fvalue f\<rparr>) filters"

text \<open>
  The two pipeline builders call \<open>buildMatch\<close>, so they too are given with the
  properties added to \<open>Object.prototype\<close> before the call and return those added after
  it; under the name of the source function is the builder in a process with the standard
  members only.
\<close>

definition buildDetailedRecordsPipeline_in ::
  "builtins \<Rightarrow> prototype \<Rightarrow> relation list \<Rightarrow> (string \<Rightarrow> string \<Rightarrow> string list option) \<Rightarrow>
   ui_filter list \<Rightarrow> js_exn + stage list \<times> prototype" where
  "buildDetailedRecordsPipeline_in B added rels fp filters =
     (let rootc = resolveRoot filters in
      case buildJoinPlan rels fp rootc filters of
        Inl e \<Rightarrow> Inl e
      | Inr joins \<Rightarrow>
          (let matchFilters =
                 filter (\<lambda>f. \<not> aggregation_tag (moperator f)) (match_filters rootc filters)
           in if filters \<noteq> [] \<and> matchFilters \<noteq> []
              then (case buildMatch_in B added matchFilters of
                      Inl e \<Rightarrow> Inl e
                    | Inr (m, added') \<Rightarrow> Inr (lookup_stages joins @ [Match m], added'))
              else Inr (lookup_stages joins, added)))"

definition buildDetailedRecordsPipeline ::
  "builtins \<Rightarrow> relation list \<Rightarrow> (string \<Rightarrow> string \<Rightarrow> string list option) \<Rightarrow> ui_filter list \<Rightarrow>
   js_exn + stage list" where
  "buildDetailedRecordsPipeline B rels fp filters =
     (case buildDetailedRecordsPipeline_in B [] rels fp filters of
        Inl e \<Rightarrow> Inl e
      | Inr (pipeline, added) \<Rightarrow> Inr pipeline)"

text \<open>
  \<open>groupStage[key] = expr\<close> with an object on the right: an own property is written,
  except under the key \<open>__proto__\<close>, where the assignment replaces the prototype and
  leaves the own properties as they are.
\<close>

definition js_set :: "(string \<times> jsval) list \<Rightarrow> string \<Rightarrow> jsval \<Rightarrow> (string \<times> jsval) list" where
  "js_set obj k v = (if k = ''__proto__'' then obj else AList.update k v obj)"

text \<open>\<open>op.alias || dflt\<close>\<close>

definition alias_or :: "ui_filter \<Rightarrow> string \<Rightarrow> string" where
  "alias_or opn dflt = (case falias opn of None \<Rightarrow> dflt | Some a \<Rightarrow> if a = [] then dflt else a)"

fun group_fields :: "string \<Rightarrow> (string \<times> jsval) list \<Rightarrow> ui_filter list \<Rightarrow> (string \<times> jsval) list" where
  "group_fields rootc groupStage [] = groupStage"
| "group_fields rootc groupStage (opn # ops) =
     group_fields rootc
       (if operator opn = ''count''
          then js_set groupStage (alias_or opn ''count'') (VObj [(''$sum'', VNum (Fin 1))])
        else if operator opn \<in> set [''sum'', ''avg'', ''min'', ''max'']
          then js_set groupStage (alias_or opn (operator opn))
                 (VObj [(''$'' @ operator opn, VStr (''$'' @ resolveFieldPath rootc opn))])
        else groupStage)
       ops"

definition buildAggregationPipeline_in ::
  "builtins \<Rightarrow> prototype \<Rightarrow> relation list \<Rightarrow> (string \<Rightarrow> string \<Rightarrow> string list option) \<Rightarrow>
   ui_filter list \<Rightarrow> ui_filter list \<Rightarrow> js_exn + stage list \<times> prototype" where
  "buildAggregationPipeline_in B added rels fp filters aggregationOps =
     (let rootc = resolveRoot filters in
      case buildJoinPlan rels fp rootc filters of
        Inl e \<Rightarrow> Inl e
      | Inr joins \<Rightarrow>
          (let matchFilters =
                 filter (\<lambda>f. \<not> aggregation_tag (moperator f)) (match_filters rootc filters);
               groupPart =
                 (if aggregationOps \<noteq> []
                  then [Group (group_fields rootc [(''_id'', VNull)] aggregationOps)] else [])
           in if filters \<noteq> [] \<and> matchFilters \<noteq> []
              then (case buildMatch_in B added matchFilters of
                      Inl e \<Rightarrow> Inl e
                    | Inr (m, added') \<Rightarrow>
                        Inr (lookup_stages joins @ [Match m] @ groupPart, added'))
              else Inr (lookup_stages joins @ groupPart, added)))"

definition buildAggregationPipeline ::
  "builtins \<Rightarrow> relation list \<Rightarrow> (string \<Rightarrow> string \<Rightarrow> string list option) \<Rightarrow> ui_filter list \<Rightarrow>
   ui_filter list \<Rightarrow> js_exn + stage list" where
  "buildAggregationPipeline B rels fp filters aggregationOps =
     (case buildAggregationPipeline_in B [] rels fp filters aggregationOps of
        Inl e \<Rightarrow> Inl e
      | Inr (pipeline, added) \<Rightarrow> Inr pipeline)"

text \<open>
  What a \<open>/query\<close> handler does with a request: a reply with a status and an error
  text, or the work it completes. For the document back end the work is followed up to the
  point where the pipelines are handed to the database: the root collection and the
  pipeline(s). The request is followed in a process whose \<open>Object.prototype\<close> has its
  standard members only when the request arrives; the second pipeline builder of a request
  runs with what the first has added. \<open>Outside\<close> is the place marked by
  \<open>Inherited\<close>.
\<close>

datatype 'r outcome = Reply nat string | Done 'r | Outside string

datatype pipelines =
    RunBoth string "stage list" "stage list"
  | RunRegular string "stage list"

text \<open>The handler's \<open>catch\<close>.\<close>

definition on_exception :: "js_exn \<Rightarrow> 'r outcome" where
  "on_exception e =
     (case e of
        Inherited k \<Rightarrow> Outside k
      | _ \<Rightarrow>
          if str_includes (message e) ''Invalid'' \<or> str_includes (message e) ''validation''
          then Reply 400 (message e)
          else Reply 500 ''Internal server error'')"

fun check_filters :: "ui_filter list \<Rightarrow> 'r outcome option" where
  "check_filters [] = None"
| "check_filters (f # fs) =
     (case validateFilter f of
        Inl e \<Rightarrow> Some (on_exception e)
      | Inr u \<Rightarrow>
          if collection f = [] \<or> field f = [] \<or> operator f = []
          then Some (Reply 400 ''Each filter must have collection, field, and operator'')
          else check_filters fs)"

definition query ::
  "builtins \<Rightarrow> relation list \<Rightarrow> (string \<Rightarrow> string \<Rightarrow> string list option) \<Rightarrow> string \<Rightarrow>
   ui_filter list \<Rightarrow> ui_filter list \<Rightarrow> pipelines outcome" where
  "query B rels fp database filters aggregation =
     (if database = [] then Reply 400 ''Database name is required''
      else if aggregation \<noteq> [] then
        (case buildDetailedRecordsPipeline_in B [] rels fp filters of
           Inl e \<Rightarrow> on_exception e
         | Inr (detailedPipeline, added) \<Rightarrow>
             (case buildAggregationPipeline_in B added rels fp filters aggregation of
                Inl e \<Rightarrow> on_exception e
              | Inr (aggregationPipeline, added') \<Rightarrow>
                  Done (RunBoth (resolveRoot filters) detailedPipeline aggregationPipeline)))
      else
        (let rootc = resolveRoot filters in
         case buildJoinPlan rels fp rootc filters of
           Inl e \<Rightarrow> on_exception e
         | Inr joins \<Rightarrow>
             (case check_filters filters of
                Some r \<Rightarrow> r
              | None \<Rightarrow>
                  (let matchFilters = match_filters rootc filters in
                   if matchFilters \<noteq> []
                   then (case buildMatch B matchFilters of
                           Inl e \<Rightarrow> on_exception e
                         | Inr m \<Rightarrow> Done (RunRegular rootc (lookup_stages joins @ [Match m])))
                   else Done (RunRegular rootc (lookup_stages joins))))))"

subsection \<open>Result enhancement\<close>

type_synonym row = "(string \<times> jsval) list"

definition idFieldMappings :: "(string \<times> string) list" where
  "idFieldMappings =
     [(''customer_id'', ''customers''), (''product_id'', ''products''),
      (''category_id'', ''categories'')]"

text \<open>Reading a property under a fixed name that no plain object inherits.\<close>

definition own_prop :: "row \<Rightarrow> string \<Rightarrow> jsval" where
  "own_prop r k = (case map_of r k of Some v \<Rightarrow> v | None \<Rightarrow> VUndefined)"

definition js_or :: "jsval \<Rightarrow> jsval \<Rightarrow> jsval" where
  "js_or a b = (if truthy a then a else b)"

text \<open>The body of \<open>if (doc) { ... }\<close>.\<close>

definition decorate :: "string \<Rightarrow> row \<Rightarrow> row \<Rightarrow> row" where
  "decorate coll doc enhancedRecord =
     (let nameField =
            js_or (own_prop doc ''name'')
              (js_or (own_prop doc ''title'') (js_or (own_prop doc ''label'') (own_prop doc ''_id'')));
          r1 = AList.update (coll @ ''_name'') nameField enhancedRecord;
          r2 = (if truthy (own_prop doc ''name'')
                then AList.update (coll @ ''_name'') (own_prop doc ''name'') r1 else r1);
          r3 = (if truthy (own_prop doc ''region'')
                then AList.update ''customer_region'' (own_prop doc ''region'') r2 else r2)
      in if truthy (own_prop doc ''zone'')
         then AList.update ''customer_zone'' (own_prop doc ''zone'') r3 else r3)"

text \<open>
  \<open>findOne coll id\<close> stands for \<open>await db.collection(coll).findOne({ _id: id })\<close>: it
  throws, or yields \<open>null\<close> (\<open>None\<close>) or a document. The \<open>try\<close> block encloses it, and
  the \<open>catch\<close> only logs.
\<close>

fun enhance_record ::
  "(string \<Rightarrow> jsval \<Rightarrow> js_exn + row option) \<Rightarrow> row \<Rightarrow> (string \<times> string) list \<Rightarrow> row" where
  "enhance_record findOne enhancedRecord [] = enhancedRecord"
| "enhance_record findOne enhancedRecord ((idField, coll) # rest) =
     enhance_record findOne
       (if truthy (own_prop enhancedRecord idField)
        then (case findOne coll (own_prop enhancedRecord idField) of
                Inl e \<Rightarrow> enhancedRecord
              | Inr None \<Rightarrow> enhancedRecord
              | Inr (Some doc) \<Rightarrow> decorate coll doc enhancedRecord)
        else enhancedRecord)
       rest"

definition enhanceResultsWithJoinedFields ::
  "(string \<Rightarrow> jsval \<Rightarrow> js_exn + row option) \<Rightarrow> row list \<Rightarrow> ui_filter list \<Rightarrow> row list" where
  "enhanceResultsWithJoinedFields findOne data filters =
     (if data = [] then data
      else map (\<lambda>record. enhance_record findOne record idFieldMappings) data)"

section \<open>Tabular back end: filterBuilderSQL.js\<close>

definition SQL_OPERATORS :: "(string \<times> string) list" where
  "SQL_OPERATORS =
     [(''$eq'', ''=''), (''$ne'', ''!=''), (''$gt'', ''>''), (''$gte'', ''>=''), (''$lt'', ''<''),
      (''$lte'', ''<=''), (''$in'', ''IN''), (''$nin'', ''NOT IN''), (''$regex'', ''LIKE''),
      (''$exists'', ''IS NOT NULL''), (''$notexists'', ''IS NULL''),
      (''$and'', ''AND''), (''$or'', ''OR''), (''$not'', ''NOT'')]"

text \<open>
  \<open>SQL_OPERATORS[op]\<close> as the template literal prints it. Under the name of a member of
  \<open>Object.prototype\<close> the read yields a built-in function (the prototype itself for
  \<open>__proto__\<close>), which is truthy and prints as its native source text.
\<close>

definition sql_operator :: "string \<Rightarrow> string option" where
  "sql_operator opr =
     (case js_get SQL_OPERATORS opr of
        Own t \<Rightarrow> Some t
      | Missing \<Rightarrow> None
      | Proto \<Rightarrow>
          Some (if opr = ''__proto__'' then ''[object Object]''
                else if opr = ''constructor'' then ''function Object() { [native code] }''
                else ''function '' @ opr @ ''() { [native code] }''))"

text \<open>\<open>xs.join(sep)\<close>\<close>

fun join_with :: "string \<Rightarrow> string list \<Rightarrow> string" where
  "join_with sep [] = []"
| "join_with sep [x] = x"
| "join_with sep (x # y # ys) = x @ sep @ join_with sep (y # ys)"

text \<open>\<open>s.replace(/\.\*/g, '%').replace(/\*/g, '%')\<close>\<close>

fun replace_dot_star :: "string \<Rightarrow> string" where
  "replace_dot_star (a # b # cs) =
     (if a = CHR ''.'' \<and> b = CHR ''*'' then CHR ''%'' # replace_dot_star cs
      else a # replace_dot_star (b # cs))"
| "replace_dot_star cs = cs"

definition like_pattern :: "string \<Rightarrow> string" where
  "like_pattern s = map (\<lambda>c. if c = CHR ''*'' then CHR ''%'' else c) (replace_dot_star s)"

fun string_of_nat :: "nat \<Rightarrow> string" where
  "string_of_nat n =
     (if n < 10 then [char_of (48 + n)]
      else string_of_nat (n div 10) @ [char_of (48 + n mod 10)])"

declare string_of_nat.simps [simp del]

text \<open>\<open>Object.entries(v)\<close>: own enumerable properties; indices for arrays and strings.\<close>

fun entries :: "jsval \<Rightarrow> (string \<times> jsval) list" where
  "entries (VObj kvs) = kvs"
| "entries (VArr xs) = zip (map string_of_nat [0..<length xs]) xs"
| "entries (VStr s) = zip (map string_of_nat [0..<length s]) (map (\<lambda>c. VStr [c]) s)"
| "entries v = []"

fun array_items :: "jsval \<Rightarrow> jsval list option" where
  "array_items (VArr xs) = Some xs"
| "array_items v = None"

type_synonym fragment = "string list \<times> jsval list"

text \<open>
  One iteration of the loop over \<open>Object.entries(value)\<close> inside \<open>buildCondition\<close>: what
  it pushes on \<open>conditions\<close> and on \<open>params\<close>.
\<close>

definition operator_condition :: "string \<Rightarrow> string \<Rightarrow> jsval \<Rightarrow> fragment" where
  "operator_condition column opr opValue =
     (case sql_operator opr of
        None \<Rightarrow> ([], [])
      | Some sqlOp \<Rightarrow>
          if opr = ''$in'' \<or> opr = ''$nin'' then
            (case array_items opValue of
               Some items \<Rightarrow>
                 ([column @ '' '' @ sqlOp @ '' ('' @ join_with '', '' (map (\<lambda>i. ''?'') items) @ '')''],
                  items)
             | None \<Rightarrow> ([], []))
          else if opr = ''$regex'' then
            (case opValue of
               VStr s \<Rightarrow> ([column @ '' LIKE ?''], [VStr (like_pattern s)])
             | _ \<Rightarrow> ([], []))
          else ([column @ '' '' @ sqlOp @ '' ?''], [opValue]))"

definition append_fragments :: "fragment list \<Rightarrow> fragment" where
  "append_fragments frs = (concat (map fst frs), concat (map snd frs))"

fun buildCondition :: "string \<Rightarrow> jsval \<Rightarrow> fragment" where
  "buildCondition key VNull = ([], [])"
| "buildCondition key VUndefined = ([], [])"
| "buildCondition key (VObj ops) =
     append_fragments (map (\<lambda>(opr, opValue). operator_condition key opr opValue) ops)"
| "buildCondition key (VObjectId h) = ([], [])"
| "buildCondition key (VDate d) = ([], [])"
| "buildCondition key v = ([key @ '' = ?''], [v])"

text \<open>The \<open>$and\<close> and \<open>$or\<close> branches, given the results of the recursive calls.\<close>

definition logical :: "string \<Rightarrow> (string \<times> jsval list) list \<Rightarrow> fragment" where
  "logical sep subs =
     (let kept = filter (\<lambda>(subClause, subParams). subClause \<noteq> []) subs;
          subConditions = map (\<lambda>(subClause, subParams). ''('' @ subClause @ '')'') kept
      in (if subConditions \<noteq> [] then [join_with sep subConditions] else [],
          concat (map snd kept)))"

definition starts_with_dollar :: "string \<Rightarrow> bool" where
  "starts_with_dollar key = (case key of [] \<Rightarrow> False | c # cs \<Rightarrow> c = CHR ''$'')"

lemma size_entry_item:
  "(k, v) \<in> set (entries f) \<Longrightarrow> array_items v = Some xs \<Longrightarrow> x \<in> set xs \<Longrightarrow> size x < size f"
proof (cases f)
  case (VObj kvs)
  assume a: "(k, v) \<in> set (entries f)" "array_items v = Some xs" "x \<in> set xs"
  from a(2) have v: "v = VArr xs" by (cases v) auto
  have "size x < size v" using a(3) v by (simp add: less_Suc_eq_le size_list_estimation')
  moreover have "(k, v) \<in> set kvs \<Longrightarrow> size v \<le> size_list (size_prod (\<lambda>x. 0) size) kvs"
    by (induction kvs) auto
  then have "size v < size f"
    using a(1) VObj by (simp add: less_Suc_eq_le)
  ultimately show ?thesis by simp
next
  case (VArr ys)
  assume a: "(k, v) \<in> set (entries f)" "array_items v = Some xs" "x \<in> set xs"
  from a(2) have v: "v = VArr xs" by (cases v) auto
  have "size x < size v" using a(3) v by (simp add: less_Suc_eq_le size_list_estimation')
  moreover have "v \<in> set ys" using a(1) VArr by (auto dest: set_zip_rightD)
  then have "size v < size f" using VArr by (simp add: less_Suc_eq_le size_list_estimation')
  ultimately show ?thesis by simp
next
  case (VStr s)
  assume a: "(k, v) \<in> set (entries f)" "array_items v = Some xs" "x \<in> set xs"
  from a(1) VStr have "v \<in> set (map (\<lambda>c. VStr [c]) s)" by (auto dest: set_zip_rightD)
  with a(2) show ?thesis by auto
qed auto

function buildSQLFilter :: "jsval \<Rightarrow> string \<times> jsval list" where
  "buildSQLFilter filter' =
     (if \<not> truthy filter' \<or> entries filter' = [] then ([], [])
      else
        (let (conditions, params) =
               append_fragments
                 (map (\<lambda>(key, v).
                         if starts_with_dollar key then
                           (case array_items v of
                              Some conds \<Rightarrow>
                                if key = ''$and'' then logical '' AND '' (map buildSQLFilter conds)
                                else if key = ''$or'' then logical '' OR '' (map buildSQLFilter conds)
                                else ([], [])
                            | None \<Rightarrow> ([], []))
                         else buildCondition key v)
                    (entries filter'))
         in (if conditions \<noteq> [] then ''WHERE '' @ join_with '' AND '' conditions else [],
             params)))"
  by pat_completeness auto
termination
  by (relation "measure size") (auto dest: size_entry_item)

declare buildSQLFilter.simps [simp del]

section \<open>Tabular back end: sqlQueryBuilder.js\<close>

record query_plan =
  tables :: "string list"
  joins :: "sql_join list"
  projection :: "string list"

record aggregation =
  operation :: string
  agg_field :: string
  agg_alias :: string

record agg_result =
  res_operation :: string
  res_field :: string
  res_alias :: string
  res_error :: "string option"
  res_value :: jsval

record sql_result =
  success :: bool
  sql_error :: "string option"
  data :: "row list"
  aggregations :: "agg_result list"

text \<open>\<open>s.split('.')\<close>\<close>

fun split_dot :: "string \<Rightarrow> string list" where
  "split_dot [] = [[]]"
| "split_dot (c # cs) =
     (case split_dot cs of
        [] \<Rightarrow> [[c]]
      | p # ps \<Rightarrow> if c = CHR ''.'' then [] # p # ps else (c # p) # ps)"

text \<open>A component of a split that is missing or empty is falsy.\<close>

definition part :: "string list \<Rightarrow> nat \<Rightarrow> string" where
  "part ps i = (if i < length ps then ps ! i else [])"

text \<open>The callback of \<open>joins.map\<close>, the same in both functions of the file.\<close>

definition join_clause :: "sql_join \<Rightarrow> string" where
  "join_clause j =
     (if s_from j = [] \<or> s_to j = [] then []
      else
        (let fromTable = part (split_dot (s_from j)) 0; fromField = part (split_dot (s_from j)) 1;
             toTable = part (split_dot (s_to j)) 0; toField = part (split_dot (s_to j)) 1
         in if fromTable = [] \<or> fromField = [] \<or> toTable = [] \<or> toField = [] then []
            else s_type j @ '' JOIN '' @ toTable @ '' ON '' @ fromTable @ ''.'' @ fromField @
                 '' = '' @ toTable @ ''.'' @ toField))"

definition joinClauses :: "sql_join list \<Rightarrow> string" where
  "joinClauses js =
     join_with '' '' (filter (\<lambda>clause. \<not> list_all is_space clause) (map join_clause js))"

text \<open>\<open>tables[0]\<close> inside a template literal.\<close>

definition first_table :: "string list \<Rightarrow> string" where
  "first_table ts = (case ts of [] \<Rightarrow> ''undefined'' | t # rest \<Rightarrow> t)"

definition to_lower :: "string \<Rightarrow> string" where
  "to_lower s =
     map (\<lambda>c. if c \<in> set ''ABCDEFGHIJKLMNOPQRSTUVWXYZ'' then char_of (of_char c + (32::nat)) else c) s"

text \<open>\<open>field.replace(/\./g, '_')\<close>\<close>

definition dots_to_underscores :: "string \<Rightarrow> string" where
  "dots_to_underscores s = map (\<lambda>c. if c = CHR ''.'' then CHR ''_'' else c) s"

text \<open>The \<open>switch\<close> of \<open>executeAggregations\<close>.\<close>

definition aggregate_expression :: "aggregation \<Rightarrow> js_exn + string" where
  "aggregate_expression agg =
     (let opn = to_lower (operation agg) in
      if opn = ''count''
        then Inr (if agg_field agg = ''*'' then ''COUNT(*)'' else ''COUNT('' @ agg_field agg @ '')'')
      else if opn = ''sum'' then Inr (''SUM('' @ agg_field agg @ '')'')
      else if opn = ''avg'' then Inr (''AVG('' @ agg_field agg @ '')'')
      else if opn = ''min'' then Inr (''MIN('' @ agg_field agg @ '')'')
      else if opn = ''max'' then Inr (''MAX('' @ agg_field agg @ '')'')
      else Inl (Error (''Unsupported aggregation operation: '' @ operation agg)))"

text \<open>
  The text of one aggregate query and its parameters, as \<open>executeAggregations\<close> has them
  when it calls \<open>pool.execute\<close>.
\<close>

definition aggQuery :: "aggregation \<Rightarrow> query_plan \<Rightarrow> jsval \<Rightarrow> js_exn + string \<times> jsval list" where
  "aggQuery agg queryPlan filter' =
     (case aggregate_expression agg of
        Inl e \<Rightarrow> Inl e
      | Inr expr \<Rightarrow>
          (let q1 = ''SELECT '' @ expr @ '' as '' @
                    (if agg_alias agg \<noteq> [] then agg_alias agg else operation agg) @ ''_'' @
                    dots_to_underscores (agg_field agg);
               q2 = q1 @ '' FROM '' @ first_table (tables queryPlan);
               q3 = (if joins queryPlan \<noteq> [] then q2 @ '' '' @ joinClauses (joins queryPlan) else q2);
               (whereClause, params) = buildSQLFilter filter'
           in Inr (if whereClause \<noteq> [] then q3 @ '' '' @ whereClause else q3, params)))"

text \<open>\<open>agg.alias || `${agg.operation}_${agg.field.replace(/\./g, '_')}`\<close>\<close>

definition result_alias :: "aggregation \<Rightarrow> string" where
  "result_alias agg =
     (if agg_alias agg \<noteq> [] then agg_alias agg
      else operation agg @ ''_'' @ dots_to_underscores (agg_field agg))"

text \<open>\<open>aggRows[0][Object.keys(aggRows[0])[0]]\<close>\<close>

definition first_cell :: "row list \<Rightarrow> js_exn + jsval" where
  "first_cell aggRows =
     (case aggRows of
        [] \<Rightarrow> Inl (TypeError ''Cannot convert undefined or null to object'')
      | r # rest \<Rightarrow> (case r of [] \<Rightarrow> Inr VUndefined | (k, v) # kvs \<Rightarrow> Inr v))"

text \<open>
  \<open>exec q ps\<close> stands for \<open>await pool.execute(q, ps)\<close>: the rows, or the driver's
  exception. One iteration of the loop of \<open>executeAggregations\<close>, with its \<open>try\<close> and
  \<open>catch\<close>:
\<close>

definition aggregate_one ::
  "(string \<Rightarrow> jsval list \<Rightarrow> js_exn + row list) \<Rightarrow> query_plan \<Rightarrow> jsval \<Rightarrow> aggregation \<Rightarrow> agg_result" where
  "aggregate_one exec queryPlan filter' agg =
     (let failed = (\<lambda>e. \<lparr>res_operation = operation agg, res_field = agg_field agg,
                          res_alias = result_alias agg, res_error = Some (message e),
                          res_value = VNull\<rparr>)
      in case aggQuery agg queryPlan filter' of
           Inl e \<Rightarrow> failed e
         | Inr (q, params) \<Rightarrow>
             (case exec q params of
                Inl e \<Rightarrow> failed e
              | Inr aggRows \<Rightarrow>
                  (case first_cell aggRows of
                     Inl e \<Rightarrow> failed e
                   | Inr v \<Rightarrow>
                       \<lparr>res_operation = operation agg, res_field = agg_field agg,
                        res_alias = result_alias agg, res_error = None, res_value = v\<rparr>)))"

definition executeAggregations ::
  "(string \<Rightarrow> jsval list \<Rightarrow> js_exn + row list) \<Rightarrow> aggregation list \<Rightarrow> query_plan \<Rightarrow> jsval \<Rightarrow>
   agg_result list" where
  "executeAggregations exec aggs queryPlan filter' = map (aggregate_one exec queryPlan filter') aggs"

text \<open>The main query of \<open>executeSQLQuery\<close> and its parameters.\<close>

definition mainQuery :: "query_plan \<Rightarrow> jsval \<Rightarrow> js_exn + string \<times> jsval list" where
  "mainQuery queryPlan filter' =
     (if tables queryPlan = [] then Inl (Error ''No tables specified in query plan'')
      else
        (let selectFields =
               join_with '', ''
                 (map (\<lambda>fld. if CHR ''.'' \<in> set fld then fld
                              else first_table (tables queryPlan) @ ''.'' @ fld)
                    (projection queryPlan));
             q1 = ''SELECT '' @ selectFields @ '' FROM '' @ first_table (tables queryPlan);
             jc = joinClauses (joins queryPlan);
             q2 = (if jc \<noteq> [] then q1 @ '' '' @ jc else q1);
             (whereClause, params) = buildSQLFilter filter'
         in Inr (if whereClause \<noteq> [] then q2 @ '' '' @ whereClause else q2, params)))"

definition executeSQLQuery ::
  "(string \<Rightarrow> jsval list \<Rightarrow> js_exn + row list) \<Rightarrow> query_plan \<Rightarrow> jsval \<Rightarrow> aggregation list \<Rightarrow>
   sql_result" where
  "executeSQLQuery exec queryPlan filter' aggs =
     (let failed = (\<lambda>e. \<lparr>success = False, sql_error = Some (message e), data = [],
                          aggregations = []\<rparr>)
      in case mainQuery queryPlan filter' of
           Inl e \<Rightarrow> failed e
         | Inr (q, params) \<Rightarrow>
             (case exec q params of
                Inl e \<Rightarrow> failed e
              | Inr rows \<Rightarrow>
                  \<lparr>success = True, sql_error = None, data = rows,
                   aggregations =
                     (if aggs \<noteq> [] then executeAggregations exec aggs queryPlan filter' else [])\<rparr>))"

section \<open>Tabular back end: server.js\<close>

definition resolveRoot_sql :: "ui_filter list \<Rightarrow> string" where
  "resolveRoot_sql filters =
     (let ts = uniq (map collection filters) in
      if ''invoices'' \<in> set ts then ''invoices''
      else if 1 < length ts then ''invoices''
      else (case ts of [t] \<Rightarrow> t | _ \<Rightarrow> ''invoices''))"

definition validateFilter_sql :: "ui_filter \<Rightarrow> js_exn + unit" where
  "validateFilter_sql f =
     (if collection f \<notin> set [''invoices'', ''customers'', ''products'', ''categories'']
        then Inl (Error (''Invalid table: '' @ collection f))
      else if CHR 0x60 \<in> set (field f) \<or> CHR '';'' \<in> set (field f)
        then Inl (Error (''Invalid field name: '' @ field f))
      else if operator f \<notin> set allowedOperators
        then Inl (Error (''Invalid operator: '' @ operator f))
      else if plain_object (fvalue f)
        then Inl (Error ''Object values not allowed for security reasons'')
      else Inr ())"

text \<open>
  The \<open>filters.forEach\<close> at the head of the handler: every filter is validated; an
  aggregation tag goes to \<open>aggregationOps\<close> (a list the handler never reads again), any
  other filter into \<open>sqlFilter[fieldPath]['$' + operator]\<close>. Under a field path that is
  a standard member of \<open>Object.prototype\<close> the test \<open>!sqlFilter[fieldPath]\<close> reads a
  built-in function, and the assignment writes the value onto that function: \<open>sqlFilter\<close>
  gets no property. Under \<open>__proto__\<close> the assignment adds a property to
  \<open>Object.prototype\<close> itself, which every later read of the translator's operator table
  can find; the tabular handler is not followed beyond that place (\<open>Inherited\<close>).
\<close>

type_synonym sql_filter = "(string \<times> (string \<times> jsval) list) list"

fun convert_filters :: "string \<Rightarrow> sql_filter \<Rightarrow> ui_filter list \<Rightarrow> js_exn + sql_filter" where
  "convert_filters rootc sqlFilter [] = Inr sqlFilter"
| "convert_filters rootc sqlFilter (f # fs) =
     (case validateFilter_sql f of
        Inl e \<Rightarrow> Inl e
      | Inr u \<Rightarrow>
          (let fieldPath = resolveFieldPath rootc f in
           if aggregation_tag (operator f) then convert_filters rootc sqlFilter fs
           else
             (case js_get sqlFilter fieldPath of
                Missing \<Rightarrow>
                  convert_filters rootc
                    (sqlFilter @ [(fieldPath, [(''$'' @ operator f, fvalue f)])]) fs
              | Proto \<Rightarrow>
                  if fieldPath = ''__proto__'' then Inl (Inherited fieldPath)
                  else convert_filters rootc sqlFilter fs
              | Own ops \<Rightarrow>
                  convert_filters rootc
                    (AList.update fieldPath (AList.update (''$'' @ operator f) (fvalue f) ops) sqlFilter)
                    fs)))"

definition sql_filter_value :: "sql_filter \<Rightarrow> jsval" where
  "sql_filter_value sqlFilter = VObj (map (\<lambda>(k, ops). (k, VObj ops)) sqlFilter)"

definition buildDetailedQueryPlan ::
  "relation list \<Rightarrow> (string \<Rightarrow> string \<Rightarrow> string list option) \<Rightarrow> ui_filter list \<Rightarrow> js_exn + query_plan" where
  "buildDetailedQueryPlan rels fp filters =
     (let rootc = resolveRoot_sql filters in
      case buildJoinPlan_sql rels fp rootc filters of
        Inl e \<Rightarrow> Inl e
      | Inr js \<Rightarrow>
          Inr \<lparr>tables = [rootc], joins = js,
               projection =
                 uniq ((rootc @ ''.*'') #
                   map (resolveFieldPath rootc)
                     (filter (\<lambda>f. collection f \<noteq> rootc \<and> \<not> aggregation_tag (operator f)) filters))\<rparr>)"

definition buildAggregationQueryPlan ::
  "relation list \<Rightarrow> (string \<Rightarrow> string \<Rightarrow> string list option) \<Rightarrow> ui_filter list \<Rightarrow> ui_filter list \<Rightarrow>
   js_exn + query_plan" where
  "buildAggregationQueryPlan rels fp filters aggregationOps =
     (let rootc = resolveRoot_sql filters;
          aggregationFilters =
            map (\<lambda>opn. \<lparr>collection = collection opn, field = field opn, operator = ''exists'',
                         fvalue = VUndefined, falias = None\<rparr>) aggregationOps
      in case buildJoinPlan_sql rels fp rootc (filters @ aggregationFilters) of
           Inl e \<Rightarrow> Inl e
         | Inr js \<Rightarrow>
             Inr \<lparr>tables = [rootc], joins = js,
                  projection =
                    map (\<lambda>opn. if operator opn = ''count'' then ''*''
                                else resolveFieldPath rootc opn) aggregationOps\<rparr>)"

text \<open>\<open>aggregation.map(agg => ({ operation: agg.operator, field: ..., alias: ... }))\<close>\<close>

definition transformedAggregations :: "ui_filter list \<Rightarrow> aggregation list" where
  "transformedAggregations aggregationOps =
     map (\<lambda>agg. \<lparr>operation = operator agg,
                  agg_field = collection agg @ ''.'' @ field agg,
                  agg_alias = alias_or agg (operator agg @ ''_'' @ field agg)\<rparr>) aggregationOps"

datatype sql_response =
    RespBoth "row list" "agg_result list"
  | RespRegular string "row list"

fun check_filters_sql :: "ui_filter list \<Rightarrow> 'r outcome option" where
  "check_filters_sql [] = None"
| "check_filters_sql (f # fs) =
     (case validateFilter_sql f of
        Inl e \<Rightarrow> Some (on_exception e)
      | Inr u \<Rightarrow>
          if collection f = [] \<or> field f = [] \<or> operator f = []
          then Some (Reply 400 ''Each filter must have collection, field, and operator'')
          else check_filters_sql fs)"

definition query_sql ::
  "(string \<Rightarrow> jsval list \<Rightarrow> js_exn + row list) \<Rightarrow> relation list \<Rightarrow>
   (string \<Rightarrow> string \<Rightarrow> string list option) \<Rightarrow> string \<Rightarrow> ui_filter list \<Rightarrow> ui_filter list \<Rightarrow>
   sql_response outcome" where
  "query_sql exec rels fp database filters aggregation =
     (if database = [] then Reply 400 ''Database name is required''
      else
        (case convert_filters (resolveRoot_sql filters) [] filters of
           Inl e \<Rightarrow> on_exception e
         | Inr sqlFilter \<Rightarrow>
             if aggregation \<noteq> [] then
               (case buildDetailedQueryPlan rels fp filters of
                  Inl e \<Rightarrow> on_exception e
                | Inr detailedQueryPlan \<Rightarrow>
                    (let detailedResult =
                           executeSQLQuery exec detailedQueryPlan (sql_filter_value sqlFilter) []
                     in case buildAggregationQueryPlan rels fp filters aggregation of
                          Inl e \<Rightarrow> on_exception e
                        | Inr aggregationQueryPlan \<Rightarrow>
                            (let aggregationResult =
                                   executeSQLQuery exec aggregationQueryPlan
                                     (sql_filter_value sqlFilter) (transformedAggregations aggregation)
                             in Done (RespBoth (data detailedResult)
                                        (aggregations aggregationResult)))))
             else
               (let rootc = resolveRoot_sql filters in
                case buildJoinPlan_sql rels fp rootc filters of
                  Inl e \<Rightarrow> on_exception e
                | Inr js \<Rightarrow>
                    (case check_filters_sql filters of
                       Some r \<Rightarrow> r
                     | None \<Rightarrow>
                         (let queryPlan =
                                \<lparr>tables = [rootc], joins = js,
                                 projection =
                                   uniq ((rootc @ ''.*'') #
                                     map (resolveFieldPath rootc)
                                       (filter (\<lambda>f. collection f \<noteq> rootc) filters))\<rparr>;
                              result = executeSQLQuery exec queryPlan (sql_filter_value sqlFilter) []
                          in Done (RespRegular rootc (data result)))))))"

section \<open>Instances for concrete inputs\<close>




section \<open>Notions used in the statements\<close>

text \<open>The names under which the result enhancer writes what it looked up.\<close>

definition decoration_fields :: "string list" where
  "decoration_fields =
     [''customers_name'', ''products_name'', ''categories_name'', ''customer_region'',
      ''customer_zone'']"































section \<open>Field names that every object inherits\<close>

text \<open>
  C10. The claim asks for exactly one top-level condition per distinct field name, for every
  filter list. The test \<open>!match[f.field]\<close> reads through the prototype chain of
  \<open>match\<close>. For the field name \<open>constructor\<close>, which \<open>validateFilter\<close> accepts,
  it reads the function \<open>Object\<close>; the condition is assigned onto that function and
  \<open>match\<close> gets no condition for the field. A list with the two distinct field names
  \<open>amount\<close> and \<open>constructor\<close> yields one condition, and on the regular path the
  request below is answered from the collection with an empty match, its filter ignored.
  Under a field name that no object inherits the condition is stored, and the conditions of
  several filters on the field are merged key by key, a later one replacing an earlier one
  under the same key.
\<close>

theorem buildMatch_drops_condition_under_inherited_name:
  "validateFilter \<lparr>collection = ''invoices'', field = ''constructor'', operator = ''eq'',
      fvalue = VNum (Fin 1), falias = None\<rparr> = Inr () \<and>
   buildMatch B [\<lparr>mfield = ''constructor'', moperator = ''eq'', mvalue = VNum (Fin 1)\<rparr>]
     = Inr [] \<and>
   buildMatch B [\<lparr>mfield = ''amount'', moperator = ''gt'', mvalue = VNum (Fin 5)\<rparr>,
                 \<lparr>mfield = ''constructor'', moperator = ''eq'', mvalue = VNum (Fin 1)\<rparr>]
     = Inr [(''amount'', [(''$gt'', VNum (Fin 5))])] \<and>
   query B RELATIONS (findPath RELATIONS) ''salesDB''
       [\<lparr>collection = ''invoices'', field = ''constructor'', operator = ''eq'',
          fvalue = VNum (Fin 1), falias = None\<rparr>] []
     = Done (RunRegular ''invoices'' [Match []]) \<and>
   buildMatch B [\<lparr>mfield = ''status'', moperator = ''eq'', mvalue = VNum (Fin 1)\<rparr>]
     = Inr [(''status'', [(''$eq'', VNum (Fin 1))])] \<and>
   buildMatch B [\<lparr>mfield = ''amount'', moperator = ''gt'', mvalue = VNum (Fin 5)\<rparr>,
                 \<lparr>mfield = ''amount'', moperator = ''lt'', mvalue = VNum (Fin 9)\<rparr>,
                 \<lparr>mfield = ''amount'', moperator = ''gt'', mvalue = VNum (Fin 7)\<rparr>]
     = Inr [(''amount'', [(''$gt'', VNum (Fin 7)), (''$lt'', VNum (Fin 9))])]"
proof -
  let ?f = "\<lparr>collection = ''invoices'', field = ''constructor'', operator = ''eq'',
          fvalue = VNum (Fin 1), falias = None\<rparr>"
  have v: "validateFilter ?f = Inr ()" by code_simp
  have root: "resolveRoot [?f] = ''invoices''" by code_simp
  have plan: "buildJoinPlan RELATIONS (findPath RELATIONS) ''invoices'' [?f] = Inr []"
    by code_simp
  have mf: "match_filters ''invoices'' [?f]
     = [\<lparr>mfield = ''constructor'', moperator = ''eq'', mvalue = VNum (Fin 1)\<rparr>]"
    by code_simp
  have valid: "check_filters [?f] = (None :: pipelines outcome option)" by code_simp
  have b1: "buildMatch B [\<lparr>mfield = ''constructor'', moperator = ''eq'', mvalue = VNum (Fin 1)\<rparr>]
     = Inr []"
    by (simp add: buildMatch_def buildMatch_in_def apply_operator_in_def js_read_def
        OPERATORS_def STANDARD_OPERATORS_def Object_prototype_members_def)
  have b2: "buildMatch B [\<lparr>mfield = ''amount'', moperator = ''gt'', mvalue = VNum (Fin 5)\<rparr>,
                 \<lparr>mfield = ''constructor'', moperator = ''eq'', mvalue = VNum (Fin 1)\<rparr>]
     = Inr [(''amount'', [(''$gt'', VNum (Fin 5))])]"
    by (simp add: buildMatch_def buildMatch_in_def apply_operator_in_def js_read_def
        OPERATORS_def STANDARD_OPERATORS_def Object_prototype_members_def)
  have b3: "buildMatch B [\<lparr>mfield = ''status'', moperator = ''eq'', mvalue = VNum (Fin 1)\<rparr>]
     = Inr [(''status'', [(''$eq'', VNum (Fin 1))])]"
    by (simp add: buildMatch_def buildMatch_in_def apply_operator_in_def js_read_def
        OPERATORS_def STANDARD_OPERATORS_def Object_prototype_members_def)
  have b4: "buildMatch B [\<lparr>mfield = ''amount'', moperator = ''gt'', mvalue = VNum (Fin 5)\<rparr>,
                 \<lparr>mfield = ''amount'', moperator = ''lt'', mvalue = VNum (Fin 9)\<rparr>,
                 \<lparr>mfield = ''amount'', moperator = ''gt'', mvalue = VNum (Fin 7)\<rparr>]
     = Inr [(''amount'', [(''$gt'', VNum (Fin 7)), (''$lt'', VNum (Fin 9))])]"
    by (simp add: buildMatch_def buildMatch_in_def apply_operator_in_def js_read_def
        OPERATORS_def STANDARD_OPERATORS_def Object_prototype_members_def Object_assign_def)
  have q: "query B RELATIONS (findPath RELATIONS) ''salesDB'' [?f] []
     = Done (RunRegular ''invoices'' [Match []])"
    by (simp add: query_def Let_def root plan mf valid b1 lookup_stages_def
        del: check_filters.simps)
  from v b1 b2 b3 b4 q show ?thesis by simp
qed

section \<open>Unknown operators\<close>

text \<open>
  C1. The claim asks that a filter whose operator tag is unknown makes the translator fail
  with an error, on both back ends. The tabular translator does not: \<open>buildCondition\<close>
  skips every operator key that \<open>SQL_OPERATORS\<close> lacks. The request below passes
  \<open>validateFilter\<close> (\<open>contains\<close> is on its list), its filter becomes
  \<open>{ name: { $contains: 'bob' } }\<close>, the translator returns an empty clause without
  parameters, and the query that runs is \<open>SELECT invoices.* FROM invoices\<close>, unfiltered.
  The document back end's translator throws \<open>Invalid operator\<close> for a tag it lacks.
\<close>

theorem sql_translator_drops_unknown_operator:
  "buildSQLFilter (VObj [(''name'', VObj [(''$contains'', VStr ''bob'')])]) = ([], []) \<and>
   validateFilter_sql \<lparr>collection = ''invoices'', field = ''name'', operator = ''contains'',
      fvalue = VStr ''bob'', falias = None\<rparr> = Inr () \<and>
   query_sql exec RELATIONS (findPath RELATIONS) ''salesDB''
       [\<lparr>collection = ''invoices'', field = ''name'', operator = ''contains'',
          fvalue = VStr ''bob'', falias = None\<rparr>] []
     = Done (RespRegular ''invoices''
         (data (executeSQLQuery exec
            \<lparr>tables = [''invoices''], joins = [], projection = [''invoices.*'']\<rparr>
            (VObj [(''name'', VObj [(''$contains'', VStr ''bob'')])]) []))) \<and>
   mainQuery \<lparr>tables = [''invoices''], joins = [], projection = [''invoices.*'']\<rparr>
       (VObj [(''name'', VObj [(''$contains'', VStr ''bob'')])])
     = Inr (''SELECT invoices.* FROM invoices'', []) \<and>
   apply_operator B \<lparr>mfield = ''name'', moperator = ''regex'', mvalue = VStr ''bob''\<rparr>
     = Inl (Error ''Invalid operator: regex'')"
proof -
  have "apply_operator B \<lparr>mfield = ''name'', moperator = ''regex'', mvalue = VStr ''bob''\<rparr>
     = Inl (Error ''Invalid operator: regex'')"
    by (simp add: apply_operator_def apply_operator_in_def js_read_def OPERATORS_def
        STANDARD_OPERATORS_def AGGREGATION_OPERATORS_def Object_prototype_members_def)
  moreover have "buildSQLFilter (VObj [(''name'', VObj [(''$contains'', VStr ''bob'')])]) = ([], [])"
    by code_simp
  moreover have "validateFilter_sql \<lparr>collection = ''invoices'', field = ''name'',
      operator = ''contains'', fvalue = VStr ''bob'', falias = None\<rparr> = Inr ()"
    by code_simp
  moreover have "query_sql exec RELATIONS (findPath RELATIONS) ''salesDB''
       [\<lparr>collection = ''invoices'', field = ''name'', operator = ''contains'',
          fvalue = VStr ''bob'', falias = None\<rparr>] []
     = Done (RespRegular ''invoices''
         (data (executeSQLQuery exec
            \<lparr>tables = [''invoices''], joins = [], projection = [''invoices.*'']\<rparr>
            (VObj [(''name'', VObj [(''$contains'', VStr ''bob'')])]) [])))"
    by code_simp
  moreover have "mainQuery \<lparr>tables = [''invoices''], joins = [], projection = [''invoices.*'']\<rparr>
       (VObj [(''name'', VObj [(''$contains'', VStr ''bob'')])])
     = Inr (''SELECT invoices.* FROM invoices'', [])"
    by code_simp
  ultimately show ?thesis by blast
qed

section \<open>Join plans\<close>

text \<open>
  C2. The claim asks that join edges are deduplicated by their full signature and that two
  distinct edges are never collapsed. The tabular planner's key function reads
  \<open>localField\<close> and \<open>foreignField\<close>, which its edges do not have, so the key is the
  \<open>from\<close> side alone. From the root \<open>categories\<close> the references to \<open>products\<close> and to
  \<open>invoices\<close> give two distinct edges with the same \<open>from\<close> side, and the second is
  dropped; the aggregation plan of the handler reaches this case. The document planner,
  whose edges do carry the three properties of the key, keeps both. The relation table is
  the document back end's (the tabular one's is not among the sources).
\<close>

theorem sql_join_plan_collapses_distinct_edges:
  "collect_joins (path_joins_sql RELATIONS) (findPath RELATIONS) ''categories''
       [\<lparr>collection = ''products'', field = ''price'', operator = ''exists'',
          fvalue = VUndefined, falias = None\<rparr>,
        \<lparr>collection = ''invoices'', field = ''amount'', operator = ''exists'',
          fvalue = VUndefined, falias = None\<rparr>]
     = Inr [\<lparr>s_from = ''categories._id'', s_to = ''products.category_id'', s_type = ''INNER''\<rparr>,
            \<lparr>s_from = ''categories._id'', s_to = ''invoices.category_id'', s_type = ''INNER''\<rparr>] \<and>
   buildJoinPlan_sql RELATIONS (findPath RELATIONS) ''categories''
       [\<lparr>collection = ''products'', field = ''price'', operator = ''exists'',
          fvalue = VUndefined, falias = None\<rparr>,
        \<lparr>collection = ''invoices'', field = ''amount'', operator = ''exists'',
          fvalue = VUndefined, falias = None\<rparr>]
     = Inr [\<lparr>s_from = ''categories._id'', s_to = ''products.category_id'', s_type = ''INNER''\<rparr>] \<and>
   buildAggregationQueryPlan RELATIONS (findPath RELATIONS)
       [\<lparr>collection = ''categories'', field = ''name'', operator = ''eq'',
          fvalue = VStr ''toys'', falias = None\<rparr>]
       [\<lparr>collection = ''products'', field = ''price'', operator = ''avg'',
          fvalue = VUndefined, falias = None\<rparr>,
        \<lparr>collection = ''invoices'', field = ''amount'', operator = ''sum'',
          fvalue = VUndefined, falias = None\<rparr>]
     = Inr \<lparr>tables = [''categories''],
            joins = [\<lparr>s_from = ''categories._id'', s_to = ''products.category_id'',
                      s_type = ''INNER''\<rparr>],
            projection = [''products.price'', ''invoices.amount'']\<rparr> \<and>
   buildJoinPlan RELATIONS (findPath RELATIONS) ''categories''
       [\<lparr>collection = ''products'', field = ''price'', operator = ''exists'',
          fvalue = VUndefined, falias = None\<rparr>,
        \<lparr>collection = ''invoices'', field = ''amount'', operator = ''exists'',
          fvalue = VUndefined, falias = None\<rparr>]
     = Inr [\<lparr>j_from = ''products'', localField = ''_id'', foreignField = ''category_id'',
              j_as = ''products''\<rparr>,
            \<lparr>j_from = ''invoices'', localField = ''_id'', foreignField = ''category_id'',
              j_as = ''invoices''\<rparr>]"
  by code_simp

section \<open>Aggregation tags on the regular path\<close>

text \<open>
  C3. The claim asks that an aggregation-tagged filter never reaches the match translator,
  on every request path. On the regular path of the document back end the handler maps all
  filters to match filters without removing the aggregation tags: the filter below reaches
  \<open>buildMatch\<close>, whose call of the string \<open>'$sum'\<close> throws, and the caller gets status
  500. \<open>buildDetailedRecordsPipeline\<close>, used when aggregations are requested, removes the
  same filter first.
\<close>

theorem regular_path_hands_aggregation_tag_to_buildMatch:
  "match_filters (resolveRoot
        [\<lparr>collection = ''invoices'', field = ''amount'', operator = ''sum'',
           fvalue = VNum (Fin 1), falias = None\<rparr>])
       [\<lparr>collection = ''invoices'', field = ''amount'', operator = ''sum'',
          fvalue = VNum (Fin 1), falias = None\<rparr>]
     = [\<lparr>mfield = ''amount'', moperator = ''sum'', mvalue = VNum (Fin 1)\<rparr>] \<and>
   buildMatch B [\<lparr>mfield = ''amount'', moperator = ''sum'', mvalue = VNum (Fin 1)\<rparr>]
     = Inl (TypeError ''OPERATORS[f.operator] is not a function'') \<and>
   query B RELATIONS (findPath RELATIONS) ''salesDB''
       [\<lparr>collection = ''invoices'', field = ''amount'', operator = ''sum'',
          fvalue = VNum (Fin 1), falias = None\<rparr>] []
     = Reply 500 ''Internal server error'' \<and>
   buildDetailedRecordsPipeline B RELATIONS (findPath RELATIONS)
       [\<lparr>collection = ''invoices'', field = ''amount'', operator = ''sum'',
          fvalue = VNum (Fin 1), falias = None\<rparr>]
     = Inr []"
proof -
  have root: "resolveRoot [\<lparr>collection = ''invoices'', field = ''amount'', operator = ''sum'',
           fvalue = VNum (Fin 1), falias = None\<rparr>] = ''invoices''"
    by code_simp
  have plan: "buildJoinPlan RELATIONS (findPath RELATIONS) ''invoices''
       [\<lparr>collection = ''invoices'', field = ''amount'', operator = ''sum'',
          fvalue = VNum (Fin 1), falias = None\<rparr>] = Inr []"
    by code_simp
  have mf: "match_filters ''invoices''
       [\<lparr>collection = ''invoices'', field = ''amount'', operator = ''sum'',
          fvalue = VNum (Fin 1), falias = None\<rparr>]
     = [\<lparr>mfield = ''amount'', moperator = ''sum'', mvalue = VNum (Fin 1)\<rparr>]"
    by code_simp
  have valid: "check_filters [\<lparr>collection = ''invoices'', field = ''amount'', operator = ''sum'',
          fvalue = VNum (Fin 1), falias = None\<rparr>] = (None :: pipelines outcome option)"
    by code_simp
  have bm: "buildMatch B [\<lparr>mfield = ''amount'', moperator = ''sum'', mvalue = VNum (Fin 1)\<rparr>]
     = Inl (TypeError ''OPERATORS[f.operator] is not a function'')"
    by (simp add: buildMatch_def buildMatch_in_def apply_operator_in_def js_read_def
        OPERATORS_def STANDARD_OPERATORS_def AGGREGATION_OPERATORS_def)
  have exn: "on_exception (TypeError ''OPERATORS[f.operator] is not a function'')
     = (Reply 500 ''Internal server error'' :: pipelines outcome)"
    by code_simp
  have q: "query B RELATIONS (findPath RELATIONS) ''salesDB''
       [\<lparr>collection = ''invoices'', field = ''amount'', operator = ''sum'',
          fvalue = VNum (Fin 1), falias = None\<rparr>] []
     = Reply 500 ''Internal server error''"
    by (simp add: query_def Let_def root plan mf valid bm exn del: check_filters.simps)
  have d: "buildDetailedRecordsPipeline B RELATIONS (findPath RELATIONS)
       [\<lparr>collection = ''invoices'', field = ''amount'', operator = ''sum'',
          fvalue = VNum (Fin 1), falias = None\<rparr>]
     = Inr []"
    by (simp add: buildDetailedRecordsPipeline_def buildDetailedRecordsPipeline_in_def Let_def
        root plan mf aggregation_tag_def lookup_stages_def)
  from root mf bm q d show ?thesis by simp
qed

section \<open>The between operator\<close>

text \<open>
  C7. The claim asks that a \<open>between\<close> filter whose value is an object with two bounds
  is translated into a lower and an upper comparison and is accepted by the public query
  path on both back ends. The operator is on the list of \<open>validateFilter\<close> and the
  operator table of the document back end translates it, reading the bounds from the
  properties \<open>from\<close> and \<open>to\<close> of the value. But \<open>validateFilter\<close> of either
  back end throws on every value that is a non-array object: the regular path of the
  document back end and every path of the tabular back end answer the request below with
  status 500. The aggregation path of the document back end, which does not validate,
  takes the same filter. The tabular translator has no \<open>$between\<close> and would emit
  nothing for it.
\<close>

theorem between_filter_refused_by_validation:
  "''between'' \<in> set allowedOperators \<and>
   apply_operator B
       \<lparr>mfield = ''amount'', moperator = ''between'',
        mvalue = VObj [(''from'', VNum (Fin 1)), (''to'', VNum (Fin 2))]\<rparr>
     = Inr [(''$gte'', VNum (Fin 1)), (''$lte'', VNum (Fin 2))] \<and>
   validateFilter
       \<lparr>collection = ''invoices'', field = ''amount'', operator = ''between'',
        fvalue = VObj [(''from'', VNum (Fin 1)), (''to'', VNum (Fin 2))], falias = None\<rparr>
     = Inl (Error ''Object values not allowed for security reasons'') \<and>
   query B RELATIONS (findPath RELATIONS) ''salesDB''
       [\<lparr>collection = ''invoices'', field = ''amount'', operator = ''between'',
          fvalue = VObj [(''from'', VNum (Fin 1)), (''to'', VNum (Fin 2))], falias = None\<rparr>] []
     = Reply 500 ''Internal server error'' \<and>
   query B RELATIONS (findPath RELATIONS) ''salesDB''
       [\<lparr>collection = ''invoices'', field = ''amount'', operator = ''between'',
          fvalue = VObj [(''from'', VNum (Fin 1)), (''to'', VNum (Fin 2))], falias = None\<rparr>]
       [\<lparr>collection = ''invoices'', field = ''amount'', operator = ''count'',
          fvalue = VUndefined, falias = None\<rparr>]
     = Done (RunBoth ''invoices''
         [Match [(''amount'', [(''$gte'', VNum (Fin 1)), (''$lte'', VNum (Fin 2))])]]
         [Match [(''amount'', [(''$gte'', VNum (Fin 1)), (''$lte'', VNum (Fin 2))])],
          Group [(''_id'', VNull), (''count'', VObj [(''$sum'', VNum (Fin 1))])]]) \<and>
   validateFilter_sql
       \<lparr>collection = ''invoices'', field = ''amount'', operator = ''between'',
        fvalue = VObj [(''from'', VNum (Fin 1)), (''to'', VNum (Fin 2))], falias = None\<rparr>
     = Inl (Error ''Object values not allowed for security reasons'') \<and>
   query_sql exec RELATIONS (findPath RELATIONS) ''salesDB''
       [\<lparr>collection = ''invoices'', field = ''amount'', operator = ''between'',
          fvalue = VObj [(''from'', VNum (Fin 1)), (''to'', VNum (Fin 2))], falias = None\<rparr>]
       aggregation
     = Reply 500 ''Internal server error'' \<and>
   buildSQLFilter
       (VObj [(''amount'',
               VObj [(''$between'', VObj [(''from'', VNum (Fin 1)), (''to'', VNum (Fin 2))])])])
     = ([], [])"
proof -
  let ?v = "VObj [(''from'', VNum (Fin 1)), (''to'', VNum (Fin 2))]"
  let ?f = "\<lparr>collection = ''invoices'', field = ''amount'', operator = ''between'',
          fvalue = ?v, falias = None\<rparr>"
  let ?c = "\<lparr>collection = ''invoices'', field = ''amount'', operator = ''count'',
          fvalue = VUndefined, falias = None\<rparr>"
  let ?m = "[(''amount'', [(''$gte'', VNum (Fin 1)), (''$lte'', VNum (Fin 2))])]"
  have allowed: "''between'' \<in> set allowedOperators" by code_simp
  have ap: "apply_operator B \<lparr>mfield = ''amount'', moperator = ''between'', mvalue = ?v\<rparr>
     = Inr [(''$gte'', VNum (Fin 1)), (''$lte'', VNum (Fin 2))]"
    by (simp add: apply_operator_def apply_operator_in_def js_read_def OPERATORS_def
        STANDARD_OPERATORS_def op_between_def)
  have v: "validateFilter ?f = Inl (Error ''Object values not allowed for security reasons'')"
    by code_simp
  have vs: "validateFilter_sql ?f = Inl (Error ''Object values not allowed for security reasons'')"
    by code_simp
  have root: "resolveRoot [?f] = ''invoices''" by code_simp
  have plan: "buildJoinPlan RELATIONS (findPath RELATIONS) ''invoices'' [?f] = Inr []"
    by code_simp
  have invalid: "check_filters [?f] = Some (Reply 500 ''Internal server error'' :: pipelines outcome)"
    by code_simp
  have q: "query B RELATIONS (findPath RELATIONS) ''salesDB'' [?f] []
     = Reply 500 ''Internal server error''"
    by (simp add: query_def Let_def root plan invalid del: check_filters.simps)
  have mf: "match_filters ''invoices'' [?f]
     = [\<lparr>mfield = ''amount'', moperator = ''between'', mvalue = ?v\<rparr>]"
    by code_simp
  have bm: "buildMatch_in B [] [\<lparr>mfield = ''amount'', moperator = ''between'', mvalue = ?v\<rparr>]
     = Inr (?m, [])"
    by (simp add: buildMatch_in_def apply_operator_in_def js_read_def OPERATORS_def
        STANDARD_OPERATORS_def op_between_def Object_prototype_members_def)
  have grp: "group_fields ''invoices'' [(''_id'', VNull)] [?c]
     = [(''_id'', VNull), (''count'', VObj [(''$sum'', VNum (Fin 1))])]"
    by code_simp
  have qa: "query B RELATIONS (findPath RELATIONS) ''salesDB'' [?f] [?c]
     = Done (RunBoth ''invoices'' [Match ?m]
         [Match ?m, Group [(''_id'', VNull), (''count'', VObj [(''$sum'', VNum (Fin 1))])]])"
    by (simp add: query_def buildDetailedRecordsPipeline_in_def buildAggregationPipeline_in_def
        Let_def root plan mf bm grp aggregation_tag_def lookup_stages_def
        del: group_fields.simps)
  have conv: "convert_filters (resolveRoot_sql [?f]) [] [?f]
     = Inl (Error ''Object values not allowed for security reasons'')"
    by code_simp
  have exn: "on_exception (Error ''Object values not allowed for security reasons'')
     = (Reply 500 ''Internal server error'' :: sql_response outcome)"
    by code_simp
  have qs: "query_sql exec RELATIONS (findPath RELATIONS) ''salesDB'' [?f] aggregation
     = Reply 500 ''Internal server error''"
    by (simp add: query_sql_def conv exn del: convert_filters.simps)
  have tr: "buildSQLFilter (VObj [(''amount'', VObj [(''$between'', ?v)])]) = ([], [])"
    by code_simp
  from allowed ap v q qa vs qs tr show ?thesis by blast
qed

section \<open>Error text of a failed aggregate query\<close>

text \<open>
  C8. The claim asks that a caller never sees the driver's error text. In the tabular back
  end the \<open>catch\<close> of \<open>executeAggregations\<close> stores \<open>error.message\<close> in the result
  entry, and the handler returns the entries as \<open>aggregation_data\<close>: whatever text \<open>m\<close>
  the driver raises for the aggregate query is in the response. The handler's own
  \<open>catch\<close> replaces such a text by \<open>Internal server error\<close>.
\<close>

theorem aggregation_error_text_reaches_caller:
  "query_sql (\<lambda>q ps. if take 11 q = ''SELECT SUM('' then Inl (Error m) else Inr [])
       RELATIONS (findPath RELATIONS) ''salesDB'' []
       [\<lparr>collection = ''invoices'', field = ''amount'', operator = ''sum'',
          fvalue = VUndefined, falias = None\<rparr>]
     = Done (RespBoth []
         [\<lparr>res_operation = ''sum'', res_field = ''invoices.amount'', res_alias = ''sum_amount'',
            res_error = Some m, res_value = VNull\<rparr>])"
  by code_simp

section \<open>Result enhancement\<close>

lemma update_keys_superset: "fst ` set r \<subseteq> fst ` set (AList.update k v r)"
  by (induction r) auto

lemma decorate_other:
  "coll @ ''_name'' \<in> set decoration_fields \<Longrightarrow> k \<notin> set decoration_fields \<Longrightarrow>
   map_of (decorate coll doc r) k = map_of r k"
  by (auto simp: decorate_def Let_def update_conv' decoration_fields_def)

lemma decorate_keys: "fst ` set r \<subseteq> fst ` set (decorate coll doc r)"
proof -
  have "dom (map_of r) \<subseteq> dom (map_of (decorate coll doc r))"
    by (auto simp: decorate_def Let_def update_conv')
  then show ?thesis by (simp add: dom_map_of_conv_image_fst)
qed

lemma enhance_record_other:
  "\<forall>(i, c) \<in> set ms. c @ ''_name'' \<in> set decoration_fields \<Longrightarrow> k \<notin> set decoration_fields \<Longrightarrow>
   map_of (enhance_record findOne r ms) k = map_of r k"
proof (induction ms arbitrary: r)
  case Nil
  then show ?case by simp
next
  case (Cons m ms)
  obtain i c where m: "m = (i, c)" by (cases m)
  have c: "c @ ''_name'' \<in> set decoration_fields" using Cons.prems(1) m by simp
  have rest: "\<forall>(i, c) \<in> set ms. c @ ''_name'' \<in> set decoration_fields" using Cons.prems(1) by simp
  show ?case
    using Cons.IH [OF rest Cons.prems(2)] decorate_other [OF c Cons.prems(2)]
    by (simp add: m split: sum.splits option.splits)
qed

lemma enhance_record_keys: "fst ` set r \<subseteq> fst ` set (enhance_record findOne r ms)"
proof (induction ms arbitrary: r)
  case Nil
  then show ?case by simp
next
  case (Cons m ms)
  obtain i c where m: "m = (i, c)" by (cases m)
  let ?r' = "if truthy (own_prop r i)
        then (case findOne c (own_prop r i) of
                Inl e \<Rightarrow> r
              | Inr None \<Rightarrow> r
              | Inr (Some doc) \<Rightarrow> decorate c doc r)
        else r"
  have "fst ` set r \<subseteq> fst ` set ?r'"
    using decorate_keys [of r c] by (simp split: sum.splits option.splits)
  also have "\<dots> \<subseteq> fst ` set (enhance_record findOne ?r' ms)" by (rule Cons.IH)
  finally show ?case by (simp add: m)
qed

lemma enhance_record_failed:
  "\<forall>c v d. findOne c v \<noteq> Inr (Some d) \<Longrightarrow> enhance_record findOne r ms = r"
proof (induction ms arbitrary: r)
  case Nil
  then show ?case by simp
next
  case (Cons m ms)
  obtain i c where m: "m = (i, c)" by (cases m)
  show ?case
    using Cons.IH [OF Cons.prems] Cons.prems
    by (auto simp: m split: sum.splits option.splits)
qed

lemma idFieldMappings_decoration:
  "\<forall>(i, c) \<in> set idFieldMappings. c @ ''_name'' \<in> set decoration_fields"
  by (simp add: idFieldMappings_def decoration_fields_def)

text \<open>
  C9, as the code has it. The enhancer returns one row per input row, in the same order;
  every field name of an input row is a field name of its output row; every field other
  than the five decoration fields has the value it had; and when no lookup finds a
  document (it throws or yields \<open>null\<close>) the rows come back as they were. No error leaves
  the function: its result is a list of rows.
\<close>

theorem enhancer_keeps_rows_and_other_fields:
  "length (enhanceResultsWithJoinedFields findOne rows filters) = length rows \<and>
   (\<forall>i < length rows.
      fst ` set (rows ! i) \<subseteq> fst ` set (enhanceResultsWithJoinedFields findOne rows filters ! i) \<and>
      (\<forall>k. k \<notin> set decoration_fields \<longrightarrow>
         map_of (enhanceResultsWithJoinedFields findOne rows filters ! i) k = map_of (rows ! i) k)) \<and>
   ((\<forall>c v d. findOne c v \<noteq> Inr (Some d)) \<longrightarrow>
      enhanceResultsWithJoinedFields findOne rows filters = rows)"
proof -
  have len: "length (enhanceResultsWithJoinedFields findOne rows filters) = length rows"
    by (simp add: enhanceResultsWithJoinedFields_def)
  have nth: "enhanceResultsWithJoinedFields findOne rows filters ! i
             = enhance_record findOne (rows ! i) idFieldMappings" if "i < length rows" for i
    using that by (auto simp: enhanceResultsWithJoinedFields_def)
  have fail: "enhanceResultsWithJoinedFields findOne rows filters = rows"
    if "\<forall>c v d. findOne c v \<noteq> Inr (Some d)"
    using enhance_record_failed [OF that]
    by (simp add: enhanceResultsWithJoinedFields_def map_idI)
  show ?thesis
    using len fail
    by (auto simp: nth enhance_record_other [OF idFieldMappings_decoration]
        intro: subsetD [OF enhance_record_keys])
qed

theorem enhancer_keeps_rows_and_other_fields_witness:
  "(0::nat) < length [[(''customer_id'', VNum (Fin 7)), (''amount'', VNum (Fin 10))]] \<and>
   ''amount'' \<notin> set decoration_fields \<and>
   length (enhanceResultsWithJoinedFields (\<lambda>c v. Inr None)
       [[(''customer_id'', VNum (Fin 7)), (''amount'', VNum (Fin 10))]] []) =
     length [[(''customer_id'', VNum (Fin 7)), (''amount'', VNum (Fin 10))]] \<and>
   map_of (enhanceResultsWithJoinedFields (\<lambda>c v. Inr None)
       [[(''customer_id'', VNum (Fin 7)), (''amount'', VNum (Fin 10))]] [] ! 0) ''amount'' =
     map_of ([[(''customer_id'', VNum (Fin 7)), (''amount'', VNum (Fin 10))]] ! 0) ''amount'' \<and>
   enhanceResultsWithJoinedFields (\<lambda>c v. Inr None)
       [[(''customer_id'', VNum (Fin 7)), (''amount'', VNum (Fin 10))]] [] =
     [[(''customer_id'', VNum (Fin 7)), (''amount'', VNum (Fin 10))]]"
proof -
  let ?rows = "[[(''customer_id'', VNum (Fin 7)), (''amount'', VNum (Fin 10))]]"
  let ?findOne = "(\<lambda>c v. Inr None) :: string \<Rightarrow> jsval \<Rightarrow> js_exn + row option"
  have h1: "(0::nat) < length ?rows" by simp
  have h2: "''amount'' \<notin> set decoration_fields" by (simp add: decoration_fields_def)
  have h3: "\<forall>c v d. ?findOne c v \<noteq> Inr (Some d)" by simp
  from enhancer_keeps_rows_and_other_fields [of ?findOne ?rows "[]"] h1 h2 h3
  show ?thesis by blast
qed

text \<open>
  The claim as stated, that every field of an input row is unchanged in the output row,
  fails where a row already has a field under a decoration name: the region of the
  referenced document replaces the row's own \<open>customer_region\<close>.
\<close>

theorem enhancer_overwrites_field_counterexample:
  "enhanceResultsWithJoinedFields
       (\<lambda>c v. Inr (Some [(''name'', VStr ''Acme''), (''region'', VStr ''south'')]))
       [[(''customer_id'', VNum (Fin 7)), (''customer_region'', VStr ''north'')]] []
     = [[(''customer_id'', VNum (Fin 7)), (''customer_region'', VStr ''south''),
         (''customers_name'', VStr ''Acme'')]] \<and>
   map_of (enhanceResultsWithJoinedFields
       (\<lambda>c v. Inr (Some [(''name'', VStr ''Acme''), (''region'', VStr ''south'')]))
       [[(''customer_id'', VNum (Fin 7)), (''customer_region'', VStr ''north'')]] [] ! 0)
     ''customer_region''
   \<noteq> map_of ([[(''customer_id'', VNum (Fin 7)), (''customer_region'', VStr ''north'')]] ! 0)
     ''customer_region''"
  by code_simp

section \<open>The tabular translator, entry by entry\<close>



section \<open>Value coercion\<close>




















section \<open>Placeholders and parameters\<close>






























section \<open>Aggregates\<close>






lemma alias_or_count: "operator opn = ''count'' \<Longrightarrow> alias_or opn ''count'' = alias_or opn (operator opn)"
  by simp

















end
